theory Spec2Isabelle
  imports Complex_Main "HOL-Library.AList"
begin

section \<open>Python values shared by both subsystems\<close>

text \<open>
  Python dictionaries keep their insertion order, and assigning to a key that is already
  present keeps the key's position. They are association lists here: \<open>map_of\<close> reads a
  key, \<open>AList.update\<close> is the assignment \<open>d[k] = v\<close>.

  The builtin \<open>set\<close> enumerates its elements in an order that depends on the process
  (string hashing is seeded per run). A run is therefore given its enumeration order as a
  function \<open>h\<close>: \<open>h xs\<close> is the enumeration of \<open>set(xs)\<close>, so that \<open>len(set(xs))\<close>
  is \<open>length (h xs)\<close> and \<open>list(set(xs))\<close> is \<open>h xs\<close>. Every such function
  satisfies \<open>set_order\<close>.
\<close>

datatype py_error = KeyError string | TypeError | OverflowError | ZeroDivisionError

definition set_order :: "(string list \<Rightarrow> string list) \<Rightarrow> bool" where
  "set_order h = (\<forall>xs. set (h xs) = set xs \<and> distinct (h xs))"

section \<open>Capsule manifest merge (capsule_index_job.py)\<close>

text \<open>
  A capsule is a dictionary loaded from JSON or YAML. The values the merge looks at are
  strings and lists of strings.
\<close>

datatype jval = JStr string | JList "string list"

type_synonym capsule = "(string \<times> jval) list"

type_synonym master_index = "(string \<times> capsule) list"

definition required :: "string list" where
  "required = [''capsule_id'', ''timestamp_utc'', ''status'', ''hash'']"

definition validate_schema :: "capsule \<Rightarrow> bool" where
  "validate_schema capsule = list_all (\<lambda>field. map_of capsule field \<noteq> None) required"

text \<open>\<open>d[k]\<close>: raises KeyError when the key is missing.\<close>

definition getitem :: "capsule \<Rightarrow> string \<Rightarrow> py_error + jval" where
  "getitem d k = (case map_of d k of None \<Rightarrow> Inl (KeyError k) | Some v \<Rightarrow> Inr v)"

text \<open>Python compares strings by code point, a proper prefix coming first.\<close>

fun str_less :: "string \<Rightarrow> string \<Rightarrow> bool" where
  "str_less [] [] = False"
| "str_less [] (y # ys) = True"
| "str_less (x # xs) [] = False"
| "str_less (x # xs) (y # ys) =
     (if (of_char x :: nat) < of_char y then True
      else if x = y then str_less xs ys else False)"

fun list_less :: "string list \<Rightarrow> string list \<Rightarrow> bool" where
  "list_less [] [] = False"
| "list_less [] (y # ys) = True"
| "list_less (x # xs) [] = False"
| "list_less (x # xs) (y # ys) =
     (if x = y then list_less xs ys else str_less x y)"

text \<open>\<open>a < b\<close>: a string and a list are not comparable.\<close>

fun py_less :: "jval \<Rightarrow> jval \<Rightarrow> py_error + bool" where
  "py_less (JStr a) (JStr b) = Inr (str_less a b)"
| "py_less (JList a) (JList b) = Inr (list_less a b)"
| "py_less _ _ = Inl TypeError"

text \<open>\<open>d.get("tags", [])\<close> as the iterable handed to \<open>set\<close>: a string iterates over
  its characters.\<close>

definition get_tags :: "capsule \<Rightarrow> string list" where
  "get_tags d =
     (case map_of d ''tags'' of
        None \<Rightarrow> []
      | Some (JList ts) \<Rightarrow> ts
      | Some (JStr s) \<Rightarrow> map (\<lambda>c. [c]) s)"

text \<open>\<open>{**capsule, "source_repo": repo, "manifest_path": path}\<close>\<close>

definition annotate :: "capsule \<Rightarrow> string \<Rightarrow> string \<Rightarrow> capsule" where
  "annotate capsule repo path =
     AList.update ''manifest_path'' (JStr path)
       (AList.update ''source_repo'' (JStr repo) capsule)"

text \<open>One iteration of the loop of \<open>merge_capsules\<close>. A list is not hashable, so a
  list as capsule_id raises TypeError at the membership test. The test
  \<open>capsule["status"] == "green" and existing["status"] != "green"\<close> reads the second
  status only when the first is green.\<close>

definition green_over :: "capsule \<Rightarrow> capsule \<Rightarrow> py_error + bool" where
  "green_over capsule existing =
     (case getitem capsule ''status'' of
        Inl e \<Rightarrow> Inl e
      | Inr st \<Rightarrow>
          if st = JStr ''green''
          then (case getitem existing ''status'' of
                  Inl e \<Rightarrow> Inl e
                | Inr est \<Rightarrow> Inr (est \<noteq> JStr ''green''))
          else Inr False)"

definition older_than :: "capsule \<Rightarrow> capsule \<Rightarrow> py_error + bool" where
  "older_than capsule existing =
     (case getitem capsule ''timestamp_utc'' of
        Inl e \<Rightarrow> Inl e
      | Inr ts \<Rightarrow>
         (case getitem existing ''timestamp_utc'' of
            Inl e \<Rightarrow> Inl e
          | Inr ets \<Rightarrow> py_less ts ets))"

definition union_tags :: "(string list \<Rightarrow> string list) \<Rightarrow> capsule \<Rightarrow> capsule \<Rightarrow> capsule" where
  "union_tags h existing capsule =
     AList.update ''tags'' (JList (h (get_tags existing @ get_tags capsule))) existing"

definition merge_existing ::
  "(string list \<Rightarrow> string list) \<Rightarrow> master_index \<Rightarrow> string \<Rightarrow> capsule \<Rightarrow> capsule
     \<Rightarrow> string \<Rightarrow> string \<Rightarrow> py_error + master_index" where
  "merge_existing h master_index cid existing capsule repo path =
     (case green_over capsule existing of
        Inl e \<Rightarrow> Inl e
      | Inr True \<Rightarrow> Inr (AList.update cid (annotate capsule repo path) master_index)
      | Inr False \<Rightarrow>
         (case older_than capsule existing of
            Inl e \<Rightarrow> Inl e
          | Inr True \<Rightarrow> Inr (AList.update cid (annotate capsule repo path) master_index)
          | Inr False \<Rightarrow>
              Inr (AList.update cid (union_tags h existing capsule) master_index)))"

fun merge_step ::
  "(string list \<Rightarrow> string list) \<Rightarrow> master_index \<Rightarrow> capsule \<times> string \<times> string
     \<Rightarrow> py_error + master_index" where
  "merge_step h master_index (capsule, repo, path) =
     (case getitem capsule ''capsule_id'' of
        Inl e \<Rightarrow> Inl e
      | Inr (JList ids) \<Rightarrow> Inl TypeError
      | Inr (JStr cid) \<Rightarrow>
         (case map_of master_index cid of
            None \<Rightarrow> Inr (AList.update cid (annotate capsule repo path) master_index)
          | Some existing \<Rightarrow> merge_existing h master_index cid existing capsule repo path))"

fun merge_loop ::
  "(string list \<Rightarrow> string list) \<Rightarrow> master_index \<Rightarrow> (capsule \<times> string \<times> string) list
     \<Rightarrow> py_error + master_index" where
  "merge_loop h master_index [] = Inr master_index"
| "merge_loop h master_index (x # xs) =
     (case merge_step h master_index x of
        Inl e \<Rightarrow> Inl e
      | Inr master_index' \<Rightarrow> merge_loop h master_index' xs)"

definition merge_capsules ::
  "(string list \<Rightarrow> string list) \<Rightarrow> (capsule \<times> string \<times> string) list
     \<Rightarrow> py_error + master_index" where
  "merge_capsules h all_capsules = merge_loop h [] all_capsules"

text \<open>
  The two loops of \<open>main\<close> that gather the merge input. A manifest is given by the
  repository it was found in, its path, and the list under its key \<open>capsules\<close>.
\<close>

type_synonym manifest = "string \<times> string \<times> capsule list"

definition collect_capsules :: "manifest list \<Rightarrow> (capsule \<times> string \<times> string) list" where
  "collect_capsules manifests =
     concat (map (\<lambda>(repo, path, capsules).
                    map (\<lambda>capsule. (capsule, repo, path)) (filter validate_schema capsules))
                 manifests)"

definition build_master_index ::
  "(string list \<Rightarrow> string list) \<Rightarrow> manifest list \<Rightarrow> py_error + master_index" where
  "build_master_index h manifests = merge_capsules h (collect_capsules manifests)"





section \<open>Data intake (scripts/data_intake_v0.7.0.py)\<close>

subsection \<open>Floats\<close>

text \<open>
  A Python float is a finite value, an infinity or NaN; signed zeros are not told apart.
  A comparison with NaN is false. An arithmetic operation on finite values rounds its
  exact result: the rounding of the runtime (to the nearest binary64 value, to an
  infinity on overflow) is the parameter \<open>rnd\<close> of every operation. The text
  \<open>float\<close> accepts includes \<open>nan\<close> and \<open>inf\<close>.
\<close>

datatype pyfloat = Fin real | PInf | NInf | NaN

definition is_fin :: "pyfloat \<Rightarrow> bool" where
  "is_fin x = (case x of Fin r \<Rightarrow> True | _ \<Rightarrow> False)"

text \<open>\<open>a < b\<close> and \<open>a <= b\<close>.\<close>

fun flt :: "pyfloat \<Rightarrow> pyfloat \<Rightarrow> bool" where
  "flt (Fin a) (Fin b) = (a < b)"
| "flt (Fin a) PInf = True"
| "flt NInf (Fin b) = True"
| "flt NInf PInf = True"
| "flt _ _ = False"

fun fle :: "pyfloat \<Rightarrow> pyfloat \<Rightarrow> bool" where
  "fle (Fin a) (Fin b) = (a \<le> b)"
| "fle (Fin a) PInf = True"
| "fle NInf (Fin b) = True"
| "fle NInf PInf = True"
| "fle NInf NInf = True"
| "fle PInf PInf = True"
| "fle _ _ = False"

fun fneg :: "pyfloat \<Rightarrow> pyfloat" where
  "fneg (Fin a) = Fin (- a)"
| "fneg PInf = NInf"
| "fneg NInf = PInf"
| "fneg NaN = NaN"

fun fadd :: "(real \<Rightarrow> pyfloat) \<Rightarrow> pyfloat \<Rightarrow> pyfloat \<Rightarrow> pyfloat" where
  "fadd rnd (Fin a) (Fin b) = rnd (a + b)"
| "fadd rnd NaN b = NaN"
| "fadd rnd a NaN = NaN"
| "fadd rnd PInf NInf = NaN"
| "fadd rnd NInf PInf = NaN"
| "fadd rnd PInf b = PInf"
| "fadd rnd a PInf = PInf"
| "fadd rnd NInf b = NInf"
| "fadd rnd a NInf = NInf"

definition fsub :: "(real \<Rightarrow> pyfloat) \<Rightarrow> pyfloat \<Rightarrow> pyfloat \<Rightarrow> pyfloat" where
  "fsub rnd a b = fadd rnd a (fneg b)"

text \<open>The infinity of the sign of a finite factor, NaN when the factor is zero.\<close>

definition signed_inf :: "real \<Rightarrow> pyfloat" where
  "signed_inf a = (if a = 0 then NaN else if a > 0 then PInf else NInf)"

fun fmul :: "(real \<Rightarrow> pyfloat) \<Rightarrow> pyfloat \<Rightarrow> pyfloat \<Rightarrow> pyfloat" where
  "fmul rnd (Fin a) (Fin b) = rnd (a * b)"
| "fmul rnd NaN b = NaN"
| "fmul rnd a NaN = NaN"
| "fmul rnd (Fin a) PInf = signed_inf a"
| "fmul rnd (Fin a) NInf = signed_inf (- a)"
| "fmul rnd PInf (Fin b) = signed_inf b"
| "fmul rnd NInf (Fin b) = signed_inf (- b)"
| "fmul rnd PInf PInf = PInf"
| "fmul rnd NInf NInf = PInf"
| "fmul rnd PInf NInf = NInf"
| "fmul rnd NInf PInf = NInf"

text \<open>
  \<open>a / b\<close> for a divisor that is not zero. On a zero divisor Python raises
  ZeroDivisionError; every division of the code but one is by a count that a test just
  before it has found positive, and the one that is not (in the skewness) is written out
  in \<open>numeric_stats\<close>.
\<close>

fun fdiv :: "(real \<Rightarrow> pyfloat) \<Rightarrow> pyfloat \<Rightarrow> pyfloat \<Rightarrow> pyfloat" where
  "fdiv rnd (Fin a) (Fin b) = rnd (a / b)"
| "fdiv rnd NaN b = NaN"
| "fdiv rnd a NaN = NaN"
| "fdiv rnd (Fin a) PInf = Fin 0"
| "fdiv rnd (Fin a) NInf = Fin 0"
| "fdiv rnd PInf (Fin b) = signed_inf b"
| "fdiv rnd NInf (Fin b) = signed_inf (- b)"
| "fdiv rnd PInf PInf = NaN"
| "fdiv rnd PInf NInf = NaN"
| "fdiv rnd NInf PInf = NaN"
| "fdiv rnd NInf NInf = NaN"

text \<open>\<open>a / b\<close> for two integers, \<open>b\<close> positive: the rounded quotient.\<close>

definition int_div :: "(real \<Rightarrow> pyfloat) \<Rightarrow> nat \<Rightarrow> nat \<Rightarrow> pyfloat" where
  "int_div rnd a b = rnd (real a / real b)"

text \<open>\<open>x ** k\<close> for an integer \<open>k\<close> (2 or 3 in the code): a finite base whose power
  is out of range raises OverflowError.\<close>

fun fpow :: "(real \<Rightarrow> pyfloat) \<Rightarrow> pyfloat \<Rightarrow> nat \<Rightarrow> py_error + pyfloat" where
  "fpow rnd (Fin a) k = (case rnd (a ^ k) of Fin r \<Rightarrow> Inr (Fin r) | _ \<Rightarrow> Inl OverflowError)"
| "fpow rnd PInf k = Inr PInf"
| "fpow rnd NInf k = Inr (if even k then PInf else NInf)"
| "fpow rnd NaN k = Inr NaN"

fun pow_all :: "(real \<Rightarrow> pyfloat) \<Rightarrow> nat \<Rightarrow> pyfloat list \<Rightarrow> py_error + pyfloat list" where
  "pow_all rnd k [] = Inr []"
| "pow_all rnd k (x # xs) =
     (case fpow rnd x k of
        Inl e \<Rightarrow> Inl e
      | Inr y \<Rightarrow> (case pow_all rnd k xs of Inl e \<Rightarrow> Inl e | Inr ys \<Rightarrow> Inr (y # ys)))"

text \<open>
  \<open>x ** 0.5\<close>. For a negative finite \<open>x\<close> Python returns a complex number; the code
  then compares it with 0, which raises TypeError before anything else is done with it.
\<close>

fun half_power :: "(real \<Rightarrow> pyfloat) \<Rightarrow> pyfloat \<Rightarrow> py_error + pyfloat" where
  "half_power rnd (Fin a) = (if a < 0 then Inl TypeError else Inr (rnd (sqrt a)))"
| "half_power rnd PInf = Inr PInf"
| "half_power rnd NInf = Inr PInf"
| "half_power rnd NaN = Inr NaN"

text \<open>
  What the run takes from the Python runtime for its floats: the rounding, the builtin
  \<open>sorted\<close> on a list of floats (its result on a list with a NaN depends on the sorting
  algorithm) and the builtin \<open>sum\<close> on a list of floats.
\<close>

record float_runtime =
  round_to_float :: "real \<Rightarrow> pyfloat"
  py_sorted :: "pyfloat list \<Rightarrow> pyfloat list"
  py_sum :: "pyfloat list \<Rightarrow> pyfloat"

text \<open>A rounding keeps zero, never yields NaN and is monotone.\<close>

definition rounding :: "(real \<Rightarrow> pyfloat) \<Rightarrow> bool" where
  "rounding rnd =
     (rnd 0 = Fin 0 \<and> (\<forall>x. rnd x \<noteq> NaN) \<and> (\<forall>x y. x \<le> y \<longrightarrow> fle (rnd x) (rnd y)))"

text \<open>On finite values \<open>sorted\<close> returns them in ascending order.\<close>

definition sorts_finite :: "(pyfloat list \<Rightarrow> pyfloat list) \<Rightarrow> bool" where
  "sorts_finite srt = (\<forall>rs. srt (map Fin rs) = map Fin (sort rs))"

subsection \<open>Rows and text\<close>

text \<open>
  A row is the dictionary \<open>csv.DictReader\<close> yields: field name to text. A value that is
  absent, \<open>None\<close> or the empty string is falsy, which is all the code asks of it, so
  \<open>row.get(field, '')\<close> is the text, empty when the key is absent.

  The builtin \<open>float\<close> is the parameter \<open>pf\<close>, \<open>None\<close> where it raises ValueError.
\<close>

type_synonym row = "string \<rightharpoonup> string"

definition get_field :: "row \<Rightarrow> string \<Rightarrow> string" where
  "get_field row field = (case row field of None \<Rightarrow> [] | Some v \<Rightarrow> v)"

text \<open>\<open>str.strip\<close> and \<open>str.lower\<close> on ASCII text (a \<open>char\<close> is a byte, so the length
  of a text is Python's \<open>len\<close> on ASCII only). The whitespace that \<open>strip\<close> removes:
  tab, line feed, vertical tab, form feed, carriage return, the four separators
  \<open>0x1c\<close> to \<open>0x1f\<close>, and the space.\<close>

definition is_space :: "char \<Rightarrow> bool" where
  "is_space c = ((of_char c :: nat) \<in> {9, 10, 11, 12, 13, 28, 29, 30, 31, 32})"

definition strip :: "string \<Rightarrow> string" where
  "strip s = rev (dropWhile is_space (rev (dropWhile is_space s)))"

definition lower_char :: "char \<Rightarrow> char" where
  "lower_char c =
     (case map_of (zip ''ABCDEFGHIJKLMNOPQRSTUVWXYZ'' ''abcdefghijklmnopqrstuvwxyz'') c of
        None \<Rightarrow> c
      | Some l \<Rightarrow> l)"

definition lower :: "string \<Rightarrow> string" where
  "lower s = map lower_char s"

text \<open>\<open>sub in s\<close> for strings.\<close>

fun starts_with :: "string \<Rightarrow> string \<Rightarrow> bool" where
  "starts_with [] s = True"
| "starts_with (p # ps) [] = False"
| "starts_with (p # ps) (c # cs) = (p = c \<and> starts_with ps cs)"

fun contains :: "string \<Rightarrow> string \<Rightarrow> bool" where
  "contains sub [] = (sub = [])"
| "contains sub (c # cs) = (starts_with sub (c # cs) \<or> contains sub cs)"

text \<open>\<open>int(x)\<close> of a finite float truncates toward zero.\<close>

definition py_int :: "real \<Rightarrow> int" where
  "py_int x = (if 0 \<le> x then \<lfloor>x\<rfloor> else \<lceil>x\<rceil>)"

subsection \<open>Type inference: detect_column_types\<close>

datatype column_type =
  TEmpty | TBoolean | TDatetime | TInteger | TNumeric | TMixed
  | TCategoricalHigh | TCategorical | TUnknown

text \<open>The ratios of a descriptor are quotients of counts over a sample of at most 100
  values; they are kept exact, the comparisons with the thresholds 0.9, 0.8 and 0.3 coming
  out the same for such counts in binary floating point.\<close>

record type_info =
  ctype :: column_type
  confidence :: real
  sample_count :: nat

definition quote :: string where
  "quote = [CHR 0x27]"

definition sample_values :: "row list \<Rightarrow> string \<Rightarrow> string list" where
  "sample_values data field =
     (let sample_size = min 100 (length data)
      in filter (\<lambda>v. v \<noteq> []) (map (\<lambda>row. get_field row field) (take sample_size data)))"

text \<open>The sample as the specification words it: the first 100 non-empty values of the
  column, in row order.\<close>

definition spec_sample_values :: "row list \<Rightarrow> string \<Rightarrow> string list" where
  "spec_sample_values data field =
     take 100 (filter (\<lambda>v. v \<noteq> []) (map (\<lambda>row. get_field row field) data))"

definition boolean_tokens :: "string list" where
  "boolean_tokens =
     [''true'', ''false'', ''yes'', ''no'', ''0'', ''1'', ''t'', ''f'', ''y'', ''n'']"

definition is_boolean :: "string \<Rightarrow> bool" where
  "is_boolean val = (lower (strip val) \<in> set boolean_tokens)"

text \<open>
  The numeric test of a sampled value: \<open>float(val)\<close> succeeds, and then
  \<open>num_val == int(num_val)\<close> is evaluated inside the same \<open>try\<close>. On NaN \<open>int\<close> raises
  ValueError, which the \<open>except\<close> swallows after the value has been counted as numeric;
  on an infinity it raises OverflowError, which nothing catches.
\<close>

definition is_numeric :: "(string \<Rightarrow> pyfloat option) \<Rightarrow> string \<Rightarrow> bool" where
  "is_numeric pf val = (pf val \<noteq> None)"

definition is_integer :: "(string \<Rightarrow> pyfloat option) \<Rightarrow> string \<Rightarrow> bool" where
  "is_integer pf val =
     (case pf val of Some (Fin num_val) \<Rightarrow> num_val = of_int (py_int num_val) | _ \<Rightarrow> False)"

definition overflows :: "(string \<Rightarrow> pyfloat option) \<Rightarrow> string \<Rightarrow> bool" where
  "overflows pf val = (pf val = Some PInf \<or> pf val = Some NInf)"

definition is_date :: "string \<Rightarrow> bool" where
  "is_date val = (8 \<le> length val \<and> list_ex (\<lambda>sep. sep \<in> set val) ''-/.'')"

definition ratio :: "nat \<Rightarrow> nat \<Rightarrow> real" where
  "ratio k n = real k / real n"

text \<open>The body of the loop over the fields: the dictionary of descriptors and the list
  of warnings are the state.\<close>

definition detect_field ::
  "(string list \<Rightarrow> string list) \<Rightarrow> (string \<Rightarrow> pyfloat option) \<Rightarrow> row list \<Rightarrow> string
     \<Rightarrow> (string \<times> type_info) list \<times> string list
     \<Rightarrow> py_error + (string \<times> type_info) list \<times> string list" where
  "detect_field h pf data field st =
     (case st of (column_types, warnings) \<Rightarrow>
      let sample = sample_values data field in
      if sample = [] then
        Inr (AList.update field \<lparr>ctype = TEmpty, confidence = 1, sample_count = 0\<rparr>
               column_types,
             warnings @ [''Column '' @ quote @ field @ quote @ '' is empty''])
      else if list_ex (overflows pf) sample then Inl OverflowError
      else
        let n = length sample;
            numeric_ratio = ratio (length (filter (is_numeric pf) sample)) n;
            integer_ratio = ratio (length (filter (is_integer pf) sample)) n;
            date_ratio = ratio (length (filter is_date sample)) n;
            boolean_ratio = ratio (length (filter is_boolean sample)) n
        in
        if boolean_ratio > 9 / 10 then
          Inr (AList.update field
                 \<lparr>ctype = TBoolean, confidence = boolean_ratio, sample_count = n\<rparr>
                 column_types,
               warnings)
        else if date_ratio > 8 / 10 then
          Inr (AList.update field
                 \<lparr>ctype = TDatetime, confidence = date_ratio, sample_count = n\<rparr>
                 column_types,
               warnings)
        else if integer_ratio > 9 / 10 then
          Inr (AList.update field
                 \<lparr>ctype = TInteger, confidence = integer_ratio, sample_count = n\<rparr>
                 column_types,
               warnings)
        else if numeric_ratio > 8 / 10 then
          Inr (AList.update field
                 \<lparr>ctype = TNumeric, confidence = numeric_ratio, sample_count = n\<rparr>
                 column_types,
               warnings)
        else if numeric_ratio > 3 / 10 then
          Inr (AList.update field
                 \<lparr>ctype = TMixed, confidence = 5 / 10, sample_count = n\<rparr> column_types,
               warnings @ [''Column '' @ quote @ field @ quote @ '' has mixed types''])
        else
          let unique_count = length (h sample);
              cardinality = ratio unique_count n
          in
          if cardinality > 9 / 10 then
            Inr (AList.update field
                   \<lparr>ctype = TCategoricalHigh, confidence = 1 - numeric_ratio,
                    sample_count = n\<rparr>
                   column_types,
                 warnings)
          else
            Inr (AList.update field
                   \<lparr>ctype = TCategorical, confidence = 1 - numeric_ratio, sample_count = n\<rparr>
                   column_types,
                 warnings))"

fun detect_loop ::
  "(string list \<Rightarrow> string list) \<Rightarrow> (string \<Rightarrow> pyfloat option) \<Rightarrow> row list \<Rightarrow> string list
     \<Rightarrow> (string \<times> type_info) list \<times> string list
     \<Rightarrow> py_error + (string \<times> type_info) list \<times> string list" where
  "detect_loop h pf data [] st = Inr st"
| "detect_loop h pf data (field # rest) st =
     (case detect_field h pf data field st of
        Inl e \<Rightarrow> Inl e
      | Inr st' \<Rightarrow> detect_loop h pf data rest st')"

definition detect_column_types ::
  "(string list \<Rightarrow> string list) \<Rightarrow> (string \<Rightarrow> pyfloat option) \<Rightarrow> row list \<Rightarrow> string list
     \<Rightarrow> py_error + (string \<times> type_info) list \<times> string list" where
  "detect_column_types h pf data fieldnames =
     (if data = [] then Inr ([], [])
      else detect_loop h pf data fieldnames ([], []))"

subsection \<open>Profiles: calculate_statistics\<close>

record numeric_profile =
  num_type :: column_type
  count :: nat
  min_val :: pyfloat
  max_val :: pyfloat
  range_val :: pyfloat
  mean :: pyfloat
  median :: pyfloat
  std_dev :: pyfloat
  variance :: pyfloat
  p5 :: pyfloat
  q1 :: pyfloat
  q3 :: pyfloat
  p95 :: pyfloat
  iqr :: pyfloat
  outliers :: nat
  extreme_outliers :: nat
  skewness :: pyfloat
  num_confidence :: real

record top_value =
  tv_value :: string
  tv_count :: nat
  percentage :: pyfloat

record categorical_profile =
  cat_type :: column_type
  unique_count :: nat
  cardinality :: pyfloat
  top_values :: "top_value list"
  cat_confidence :: real

text \<open>The three shapes of \<open>stats['columns'][field]\<close>: the full numeric profile, the
  numeric column without a parsable value (\<open>{'type': col_type, 'count': 0}\<close>), and the
  categorical profile.\<close>

datatype profile =
  NumericProfile numeric_profile
  | NoNumbers column_type
  | CategoricalProfile categorical_profile

text \<open>
  The entries of the validation report are formatted strings. Each is kept as the
  template it instantiates together with the values put into it:
  \<^item> \<open>InvalidNumeric f k\<close>: "f: k invalid numeric values";
  \<^item> \<open>FrequencyRange f k lo hi\<close>: "f: k values outside valid frequency range [lo, hi] Hz";
  \<^item> \<open>NegativeEnergy f k\<close>: "f: k negative energy values (physically invalid)";
  \<^item> \<open>LatticeRange f k lo hi\<close>: "f: k lattice constant values out of typical range [lo, hi]";
  \<^item> \<open>SampleSizeBelow n m\<close>: "Sample size n below minimum m";
  \<^item> \<open>SampleSizeAdequate n\<close>: "Sample size adequate: n";
  \<^item> \<open>DataQualityOk q t\<close>: "Data quality: q (threshold: t)";
  \<^item> \<open>DataQualityBelow q t\<close>: "Data quality q below threshold t";
  \<^item> \<open>OutlierRatioOk r t\<close>: "Outlier ratio: r (threshold: t)";
  \<^item> \<open>HighOutlierRatio r t\<close>: "High outlier ratio: r (threshold: t)";
  \<^item> \<open>Reported i\<close>: the text of the issue \<open>i\<close>.
\<close>

datatype issue =
  InvalidNumeric string nat
  | FrequencyRange string nat real real
  | NegativeEnergy string nat
  | LatticeRange string nat real real

datatype message =
  SampleSizeBelow nat real
  | SampleSizeAdequate nat
  | DataQualityOk pyfloat real
  | DataQualityBelow pyfloat real
  | OutlierRatioOk pyfloat real
  | HighOutlierRatio pyfloat real
  | Reported issue

datatype level = Info | Warning | Error

text \<open>The dictionary \<open>stats\<close>. Its key \<open>validation_issues\<close> is created empty and never
  written; \<open>validation_messages\<close> is absent until \<open>validate_data\<close> stores the report.\<close>

record stats =
  total_records :: nat
  columns :: "(string \<times> profile) list"
  missing_values :: "(string \<times> nat) list"
  quality_score :: pyfloat
  validation_issues :: "issue list"
  validation_messages :: "(level \<times> message) list option"

text \<open>\<open>min\<close> and \<open>max\<close> of a list that is not empty: the first element is kept until a
  later one compares below (above) it.\<close>

fun py_min :: "pyfloat list \<Rightarrow> pyfloat" where
  "py_min (x # xs) = fold (\<lambda>v m. if flt v m then v else m) xs x"

fun py_max :: "pyfloat list \<Rightarrow> pyfloat" where
  "py_max (x # xs) = fold (\<lambda>v m. if flt m v then v else m) xs x"

text \<open>\<open>col_info = column_types.get(field, {})\<close> and its two reads.\<close>

definition info_type :: "(string \<times> type_info) list \<Rightarrow> string \<Rightarrow> column_type" where
  "info_type column_types field =
     (case map_of column_types field of None \<Rightarrow> TUnknown | Some col_info \<Rightarrow> ctype col_info)"

definition info_confidence :: "(string \<times> type_info) list \<Rightarrow> string \<Rightarrow> real" where
  "info_confidence column_types field =
     (case map_of column_types field of None \<Rightarrow> 0 | Some col_info \<Rightarrow> confidence col_info)"

text \<open>The values of a column that are present and that \<open>float\<close> accepts.\<close>

definition numeric_values :: "(string \<Rightarrow> pyfloat option) \<Rightarrow> string list \<Rightarrow> pyfloat list" where
  "numeric_values pf vals = List.map_filter pf (filter (\<lambda>v. v \<noteq> []) vals)"

text \<open>
  The skewness \<open>sum((x - mean_val) ** 3 ...) / (n * std_dev ** 3)\<close>, computed when
  \<open>std_dev > 0\<close>: the cubes, then the divisor, then the division, which raises
  ZeroDivisionError when the divisor has been rounded to zero.
\<close>

definition skewness_of ::
  "float_runtime \<Rightarrow> pyfloat list \<Rightarrow> pyfloat \<Rightarrow> pyfloat \<Rightarrow> py_error + pyfloat" where
  "skewness_of fp numeric_vals mean_val std =
     (let rnd = round_to_float fp; n = length numeric_vals in
      if flt (Fin 0) std then
        (case pow_all rnd 3 (map (\<lambda>x. fsub rnd x mean_val) numeric_vals) of
           Inl e \<Rightarrow> Inl e
         | Inr cubes \<Rightarrow>
            (case fpow rnd std 3 of
               Inl e \<Rightarrow> Inl e
             | Inr std3 \<Rightarrow>
                 let divisor = fmul rnd (Fin (real n)) std3 in
                 if divisor = Fin 0 then Inl ZeroDivisionError
                 else Inr (fdiv rnd (py_sum fp cubes) divisor)))
      else Inr (Fin 0))"

text \<open>
  The profile of the parsed values of a numeric column, a list that is not empty. The
  percentile indices \<open>int(0.05 * n)\<close> and \<open>int(0.95 * n)\<close> are the floors of the
  products, \<open>n // 4\<close> and \<open>3 * n // 4\<close> are integer divisions. The two counts
  \<open>sum(1 for v in ... if ...)\<close> are the lengths of the filtered lists.
\<close>

definition numeric_stats ::
  "float_runtime \<Rightarrow> column_type \<Rightarrow> real \<Rightarrow> pyfloat list \<Rightarrow> py_error + numeric_profile" where
  "numeric_stats fp col_type conf numeric_vals =
     (let rnd = round_to_float fp;
          n = length numeric_vals;
          mean_val = fdiv rnd (py_sum fp numeric_vals) (Fin (real n))
      in case pow_all rnd 2 (map (\<lambda>x. fsub rnd x mean_val) numeric_vals) of
           Inl e \<Rightarrow> Inl e
         | Inr squares \<Rightarrow>
            (let variance_val = fdiv rnd (py_sum fp squares) (Fin (real n))
             in case half_power rnd variance_val of
                  Inl e \<Rightarrow> Inl e
                | Inr std \<Rightarrow>
                   (let sorted_vals = py_sorted fp numeric_vals;
                        p5_val = (if n > 0 then sorted_vals ! nat \<lfloor>5 / 100 * real n\<rfloor>
                                  else Fin 0);
                        q1_val = (if n > 0 then sorted_vals ! (n div 4) else Fin 0);
                        median_val = (if n > 0 then sorted_vals ! (n div 2) else Fin 0);
                        q3_val = (if n > 0 then sorted_vals ! (3 * n div 4) else Fin 0);
                        p95_val = (if n > 0 then sorted_vals ! nat \<lfloor>95 / 100 * real n\<rfloor>
                                   else Fin 0);
                        iqr_val = fsub rnd q3_val q1_val;
                        outlier_count =
                          length (filter
                            (\<lambda>v. flt v (fsub rnd q1_val (fmul rnd (Fin (15 / 10)) iqr_val))
                                \<or> flt (fadd rnd q3_val (fmul rnd (Fin (15 / 10)) iqr_val)) v)
                            numeric_vals);
                        extreme_outlier_count =
                          length (filter
                            (\<lambda>v. flt v (fsub rnd q1_val (fmul rnd (Fin 3) iqr_val))
                                \<or> flt (fadd rnd q3_val (fmul rnd (Fin 3) iqr_val)) v)
                            numeric_vals)
                    in case skewness_of fp numeric_vals mean_val std of
                         Inl e \<Rightarrow> Inl e
                       | Inr skew \<Rightarrow>
                           Inr \<lparr>num_type = col_type, count = n,
                                min_val = py_min numeric_vals, max_val = py_max numeric_vals,
                                range_val = fsub rnd (py_max numeric_vals) (py_min numeric_vals),
                                mean = mean_val, median = median_val, std_dev = std,
                                variance = variance_val,
                                p5 = p5_val, q1 = q1_val, q3 = q3_val, p95 = p95_val,
                                iqr = iqr_val, outliers = outlier_count,
                                extreme_outliers = extreme_outlier_count,
                                skewness = skew, num_confidence = conf\<rparr>)))"

text \<open>\<open>value_counts[v] += 1\<close> on a \<open>defaultdict(int)\<close>.\<close>

definition bump :: "string \<Rightarrow> (string \<times> nat) list \<Rightarrow> (string \<times> nat) list" where
  "bump v value_counts =
     AList.update v (case map_of value_counts v of None \<Rightarrow> 1 | Some c \<Rightarrow> c + 1) value_counts"

text \<open>\<open>sorted(..., key=lambda x: x[1], reverse=True)\<close> is stable: entries of equal count
  keep their order, as \<open>sort_key\<close> on the negated count does.\<close>

definition categorical_stats ::
  "(string list \<Rightarrow> string list) \<Rightarrow> (real \<Rightarrow> pyfloat) \<Rightarrow> column_type \<Rightarrow> real \<Rightarrow> nat
     \<Rightarrow> string list \<Rightarrow> categorical_profile" where
  "categorical_stats h rnd col_type conf n_rows vals =
     (let present = filter (\<lambda>v. v \<noteq> []) vals;
          unique_values = h present;
          value_counts = fold bump present [];
          top = take 10 (sort_key (\<lambda>x. - int (snd x)) value_counts)
      in \<lparr>cat_type = col_type,
          unique_count = length unique_values,
          cardinality =
            (if length vals > 0 then int_div rnd (length unique_values) (length vals)
             else Fin 0),
          top_values =
            map (\<lambda>(v, c). \<lparr>tv_value = v, tv_count = c,
                            percentage = fmul rnd (int_div rnd c n_rows) (Fin 100)\<rparr>) top,
          cat_confidence = conf\<rparr>)"

definition column_profile ::
  "(string list \<Rightarrow> string list) \<Rightarrow> (string \<Rightarrow> pyfloat option) \<Rightarrow> float_runtime \<Rightarrow> row list
     \<Rightarrow> (string \<times> type_info) list \<Rightarrow> string \<Rightarrow> py_error + profile" where
  "column_profile h pf fp data column_types field =
     (let vals = map (\<lambda>row. get_field row field) data;
          col_type = info_type column_types field;
          conf = info_confidence column_types field
      in if col_type \<in> {TNumeric, TInteger} then
           (let numeric_vals = numeric_values pf vals
            in if numeric_vals \<noteq> [] then
                 (case numeric_stats fp col_type conf numeric_vals of
                    Inl e \<Rightarrow> Inl e
                  | Inr np \<Rightarrow> Inr (NumericProfile np))
               else Inr (NoNumbers col_type))
         else Inr (CategoricalProfile
                     (categorical_stats h (round_to_float fp) col_type conf (length data) vals)))"

definition missing_count :: "row list \<Rightarrow> string \<Rightarrow> nat" where
  "missing_count data field =
     length (filter (\<lambda>v. v = []) (map (\<lambda>row. get_field row field) data))"

text \<open>The body of the loop over the fields.\<close>

definition stats_field ::
  "(string list \<Rightarrow> string list) \<Rightarrow> (string \<Rightarrow> pyfloat option) \<Rightarrow> float_runtime \<Rightarrow> row list
     \<Rightarrow> (string \<times> type_info) list \<Rightarrow> string \<Rightarrow> stats \<Rightarrow> py_error + stats" where
  "stats_field h pf fp data column_types field st =
     (case column_profile h pf fp data column_types field of
        Inl e \<Rightarrow> Inl e
      | Inr p \<Rightarrow>
          Inr (st\<lparr>missing_values :=
                     AList.update field (missing_count data field) (missing_values st),
                   columns := AList.update field p (columns st)\<rparr>))"

fun stats_loop ::
  "(string list \<Rightarrow> string list) \<Rightarrow> (string \<Rightarrow> pyfloat option) \<Rightarrow> float_runtime \<Rightarrow> row list
     \<Rightarrow> (string \<times> type_info) list \<Rightarrow> string list \<Rightarrow> stats \<Rightarrow> py_error + stats" where
  "stats_loop h pf fp data column_types [] st = Inr st"
| "stats_loop h pf fp data column_types (field # rest) st =
     (case stats_field h pf fp data column_types field st of
        Inl e \<Rightarrow> Inl e
      | Inr st' \<Rightarrow> stats_loop h pf fp data column_types rest st')"

definition calculate_statistics ::
  "(string list \<Rightarrow> string list) \<Rightarrow> (string \<Rightarrow> pyfloat option) \<Rightarrow> float_runtime \<Rightarrow> row list
     \<Rightarrow> string list \<Rightarrow> (string \<times> type_info) list \<Rightarrow> py_error + stats" where
  "calculate_statistics h pf fp data fieldnames column_types =
     (let stats0 = \<lparr>total_records = length data, columns = [], missing_values = [],
                     quality_score = Fin 0, validation_issues = [],
                     validation_messages = None\<rparr>
      in if data = [] then Inr stats0
         else
           (case stats_loop h pf fp data column_types fieldnames stats0 of
              Inl e \<Rightarrow> Inl e
            | Inr st \<Rightarrow>
                if length (columns st) > 0 then
                  (let total_cells = length data * length (columns st);
                       total_missing = sum_list (map snd (missing_values st))
                   in Inr (st\<lparr>quality_score :=
                                 (if total_cells > 0
                                  then fsub (round_to_float fp) (Fin 1)
                                         (int_div (round_to_float fp) total_missing total_cells)
                                  else Fin 0)\<rparr>))
                else Inr st))"

subsection \<open>Thresholds\<close>

text \<open>
  The configuration is read through chains of \<open>.get(key, default)\<close>, so a threshold is
  either present or replaced by its default, whatever level of the nesting is missing:
  each field is the value found, if any. The thresholds are finite floats.
\<close>

record config =
  min_completeness :: "real option"
  min_sample_size :: "real option"
  max_outlier_ratio :: "real option"
  min_frequency_hz :: "real option"
  max_frequency_hz :: "real option"
  min_lattice_constant :: "real option"
  max_lattice_constant :: "real option"

definition or_default :: "real option \<Rightarrow> real \<Rightarrow> real" where
  "or_default v d = (case v of None \<Rightarrow> d | Some x \<Rightarrow> x)"

subsection \<open>Domain ranges: validate_numeric_ranges\<close>

definition invalid_count :: "(string \<Rightarrow> pyfloat option) \<Rightarrow> string list \<Rightarrow> nat" where
  "invalid_count pf vals = length (filter (\<lambda>v. pf v = None) (filter (\<lambda>v. v \<noteq> []) vals))"

definition range_issues ::
  "(string \<Rightarrow> pyfloat option) \<Rightarrow> row list \<Rightarrow> config \<Rightarrow> string \<Rightarrow> issue list" where
  "range_issues pf data cfg field =
     (let vals = map (\<lambda>row. get_field row field) data;
          nums = numeric_values pf vals;
          bad = invalid_count pf vals;
          invalid = (if bad > 0 then [InvalidNumeric field bad] else [])
      in if nums = [] then invalid
         else
           let field_lower = lower field;
               min_freq = or_default (min_frequency_hz cfg) 1000000;
               max_freq = or_default (max_frequency_hz cfg) 1000000000000;
               freq_out = filter (\<lambda>v. flt v (Fin min_freq) \<or> flt (Fin max_freq) v) nums;
               negative_count = length (filter (\<lambda>v. flt v (Fin 0)) nums);
               min_lc = or_default (min_lattice_constant cfg) (1 / 10);
               max_lc = or_default (max_lattice_constant cfg) 100;
               lc_out = filter (\<lambda>v. flt v (Fin min_lc) \<or> flt (Fin max_lc) v) nums
           in invalid
              @ (if (contains ''frequency'' field_lower \<or> contains ''freq'' field_lower)
                    \<and> freq_out \<noteq> []
                 then [FrequencyRange field (length freq_out) min_freq max_freq] else [])
              @ (if contains ''energy'' field_lower \<and> negative_count > 0
                 then [NegativeEnergy field negative_count] else [])
              @ (if (contains ''lattice'' field_lower \<or> contains ''constant'' field_lower)
                    \<and> lc_out \<noteq> []
                 then [LatticeRange field (length lc_out) min_lc max_lc] else []))"

definition validate_numeric_ranges ::
  "(string \<Rightarrow> pyfloat option) \<Rightarrow> row list \<Rightarrow> string list \<Rightarrow> (string \<times> type_info) list
     \<Rightarrow> config \<Rightarrow> issue list" where
  "validate_numeric_ranges pf data fieldnames column_types cfg =
     concat (map (\<lambda>field.
                    if info_type column_types field \<in> {TNumeric, TInteger}
                    then range_issues pf data cfg field else [])
                 fieldnames)"

subsection \<open>Verdict: validate_data\<close>

definition profile_type :: "profile \<Rightarrow> column_type" where
  "profile_type p =
     (case p of NumericProfile np \<Rightarrow> num_type np
              | NoNumbers t \<Rightarrow> t
              | CategoricalProfile cp \<Rightarrow> cat_type cp)"

text \<open>\<open>col.get('outliers', 0)\<close> and \<open>col.get('count', 0)\<close>.\<close>

definition profile_outliers :: "profile \<Rightarrow> nat" where
  "profile_outliers p = (case p of NumericProfile np \<Rightarrow> outliers np | _ \<Rightarrow> 0)"

definition profile_count :: "profile \<Rightarrow> nat" where
  "profile_count p = (case p of NumericProfile np \<Rightarrow> count np | _ \<Rightarrow> 0)"

definition sample_size_check :: "nat \<Rightarrow> real \<Rightarrow> bool \<times> (level \<times> message) list" where
  "sample_size_check n min_size =
     (if real n < min_size then (False, [(Warning, SampleSizeBelow n min_size)])
      else (True, [(Info, SampleSizeAdequate n)]))"

definition completeness_check :: "pyfloat \<Rightarrow> real \<Rightarrow> bool \<times> (level \<times> message) list" where
  "completeness_check score min_compl =
     (if fle (Fin min_compl) score then (True, [(Info, DataQualityOk score min_compl)])
      else (False, [(Error, DataQualityBelow score min_compl)]))"

definition outlier_check :: "(real \<Rightarrow> pyfloat) \<Rightarrow> stats \<Rightarrow> real \<Rightarrow> (level \<times> message) list" where
  "outlier_check rnd st max_ratio =
     (let numeric_cols = filter (\<lambda>col. profile_type col \<in> {TNumeric, TInteger})
                                (map snd (columns st));
          total_outliers = sum_list (map profile_outliers numeric_cols);
          numeric_records = sum_list (map profile_count numeric_cols)
      in if numeric_records > 0 then
           (let outlier_ratio = int_div rnd total_outliers numeric_records
            in if fle outlier_ratio (Fin max_ratio)
               then [(Info, OutlierRatioOk outlier_ratio max_ratio)]
               else [(Warning, HighOutlierRatio outlier_ratio max_ratio)])
         else [])"

text \<open>The result is the returned pair together with \<open>stats\<close> as the call leaves it.\<close>

definition validate_data ::
  "(real \<Rightarrow> pyfloat) \<Rightarrow> row list \<Rightarrow> stats \<Rightarrow> config \<Rightarrow> issue list
     \<Rightarrow> bool \<times> (level \<times> message) list \<times> stats" where
  "validate_data rnd data st cfg issues =
     (if data = [] then (False, [], st)
      else
        let min_compl = or_default (min_completeness cfg) (95 / 100);
            min_size = or_default (min_sample_size cfg) 100;
            max_ratio = or_default (max_outlier_ratio cfg) (2 / 100);
            level1 = sample_size_check (length data) min_size;
            level2 = completeness_check (quality_score st) min_compl;
            validation_passed = (fst level1 \<and> fst level2);
            msgs = snd level1 @ snd level2 @ outlier_check rnd st max_ratio
                     @ map (\<lambda>i. (Warning, Reported i)) issues
        in (validation_passed, msgs, st\<lparr>validation_messages := Some msgs\<rparr>))"

subsection \<open>The run of \<open>main\<close>: inference, profile, ranges, verdict\<close>

record run_result =
  run_types :: "(string \<times> type_info) list"
  run_warnings :: "string list"
  run_stats :: stats
  run_passed :: bool
  run_messages :: "(level \<times> message) list"

definition run_pipeline ::
  "(string list \<Rightarrow> string list) \<Rightarrow> (string \<Rightarrow> pyfloat option) \<Rightarrow> float_runtime \<Rightarrow> row list
     \<Rightarrow> string list \<Rightarrow> config \<Rightarrow> py_error + run_result" where
  "run_pipeline h pf fp data fieldnames cfg =
     (case detect_column_types h pf data fieldnames of
        Inl e \<Rightarrow> Inl e
      | Inr (column_types, type_warnings) \<Rightarrow>
         (case calculate_statistics h pf fp data fieldnames column_types of
            Inl e \<Rightarrow> Inl e
          | Inr st \<Rightarrow>
              let issues = validate_numeric_ranges pf data fieldnames column_types cfg;
                  (validation_result, validation_messages, st') =
                    validate_data (round_to_float fp) data st cfg issues
              in Inr \<lparr>run_types = column_types, run_warnings = type_warnings, run_stats = st',
                       run_passed = validation_result,
                       run_messages = validation_messages\<rparr>))"

section \<open>Concrete inputs\<close>

text \<open>The two records of the specification's third scenario, and a record without
  \<open>hash\<close>.\<close>

definition cap_green :: capsule where
  "cap_green =
     [(''capsule_id'', JStr ''c1''), (''status'', JStr ''green''),
      (''timestamp_utc'', JStr ''2025-01-03T00:00:00Z''), (''hash'', JStr ''h2'')]"

definition cap_pending :: capsule where
  "cap_pending =
     [(''capsule_id'', JStr ''c1''), (''status'', JStr ''pending''),
      (''timestamp_utc'', JStr ''2025-01-02T00:00:00Z''), (''hash'', JStr ''h1'')]"

definition cap_nohash :: capsule where
  "cap_nohash =
     [(''capsule_id'', JStr ''c2''), (''timestamp_utc'', JStr ''2025-01-02T00:00:00Z''),
      (''status'', JStr ''green'')]"



text \<open>What \<open>float\<close> returns on the texts of the scenarios: it parses \<open>1\<close> and \<open>2\<close>,
  reads \<open>nan\<close> as NaN and raises ValueError on the other texts used here.\<close>

definition scenario_float :: "string \<Rightarrow> pyfloat option" where
  "scenario_float s =
     (if s = ''1'' then Some (Fin 1) else if s = ''2'' then Some (Fin 2)
      else if s = ''nan'' then Some NaN else None)"

text \<open>
  A runtime for the examples: results are left as they are (what binary64 rounding does
  on the values that occur in the examples), \<open>sum\<close> adds from left to right starting
  at 0, and \<open>sorted\<close> sorts a list of finite values and leaves any other list as it is
  (which is what Python does on a list of one element).
\<close>

definition the_fin :: "pyfloat \<Rightarrow> real" where
  "the_fin x = (case x of Fin r \<Rightarrow> r | _ \<Rightarrow> 0)"

definition scenario_sorted :: "pyfloat list \<Rightarrow> pyfloat list" where
  "scenario_sorted xs = (if list_all is_fin xs then map Fin (sort (map the_fin xs)) else xs)"

definition exact_runtime :: float_runtime where
  "exact_runtime =
     \<lparr>round_to_float = Fin, py_sorted = scenario_sorted,
      py_sum = (\<lambda>xs. foldl (fadd Fin) (Fin 0) xs)\<rparr>"

text \<open>The table of the first scenario.\<close>

definition rows_mixed :: "row list" where
  "rows_mixed = [[''a'' \<mapsto> ''1''], [''a'' \<mapsto> ''2''], [''a'' \<mapsto> ''x'']]"

text \<open>A table of 101 rows whose first row has no value for the column \<open>a\<close>.\<close>

definition rows_101 :: "row list" where
  "rows_101 =
     [''a'' \<mapsto> [], ''b'' \<mapsto> ''1''] # replicate 100 [''a'' \<mapsto> ''x'', ''b'' \<mapsto> ''1'']"

text \<open>A table of two rows whose second row has no value for the column \<open>a\<close>, the
  descriptors that type inference gives for it, and the profile that the profiler stores
  for its column \<open>a\<close>.\<close>

definition rows_gap :: "row list" where
  "rows_gap = [[''a'' \<mapsto> ''x'', ''b'' \<mapsto> ''u''], [''a'' \<mapsto> [], ''b'' \<mapsto> ''v'']]"

definition types_gap :: "(string \<times> type_info) list" where
  "types_gap =
     [(''a'', \<lparr>ctype = TCategoricalHigh, confidence = 1, sample_count = 1\<rparr>),
      (''b'', \<lparr>ctype = TCategoricalHigh, confidence = 1, sample_count = 2\<rparr>)]"

definition profile_gap :: categorical_profile where
  "profile_gap =
     \<lparr>cat_type = TCategoricalHigh, unique_count = 1, cardinality = Fin (1 / 2),
      top_values = [\<lparr>tv_value = ''x'', tv_count = 1, percentage = Fin 50\<rparr>],
      cat_confidence = 1\<rparr>"

definition stats_gap :: stats where
  "stats_gap =
     \<lparr>total_records = 2,
      columns =
        [(''a'', CategoricalProfile profile_gap),
         (''b'', CategoricalProfile
                  \<lparr>cat_type = TCategoricalHigh, unique_count = 2, cardinality = Fin 1,
                   top_values = [\<lparr>tv_value = ''u'', tv_count = 1, percentage = Fin 50\<rparr>,
                                 \<lparr>tv_value = ''v'', tv_count = 1, percentage = Fin 50\<rparr>],
                   cat_confidence = 1\<rparr>)],
      missing_values = [(''a'', 1), (''b'', 0)],
      quality_score = Fin (3 / 4), validation_issues = [], validation_messages = None\<rparr>"

text \<open>A table of one row whose only value is the text \<open>nan\<close>, and the profile that the
  profiler stores for its column.\<close>

definition rows_nan :: "row list" where
  "rows_nan = [[''a'' \<mapsto> ''nan'']]"

definition profile_nan :: numeric_profile where
  "profile_nan =
     \<lparr>num_type = TNumeric, count = 1, min_val = NaN, max_val = NaN, range_val = NaN,
      mean = NaN, median = NaN, std_dev = NaN, variance = NaN,
      p5 = NaN, q1 = NaN, q3 = NaN, p95 = NaN, iqr = NaN,
      outliers = 0, extreme_outliers = 0, skewness = Fin 0, num_confidence = 1\<rparr>"

definition stats_nan :: stats where
  "stats_nan =
     \<lparr>total_records = 1, columns = [(''a'', NumericProfile profile_nan)],
      missing_values = [(''a'', 0)],
      quality_score = Fin 1, validation_issues = [], validation_messages = None\<rparr>"

text \<open>A table with the numeric column \<open>b\<close> of the values 1, 2, 2.\<close>

definition rows_num :: "row list" where
  "rows_num = [[''b'' \<mapsto> ''1''], [''b'' \<mapsto> ''2''], [''b'' \<mapsto> ''2'']]"

definition all_defaults :: config where
  "all_defaults =
     \<lparr>min_completeness = None, min_sample_size = None, max_outlier_ratio = None,
      min_frequency_hz = None, max_frequency_hz = None,
      min_lattice_constant = None, max_lattice_constant = None\<rparr>"

section \<open>Properties of the capsule merge\<close>



lemma collect_capsules_append:
  "collect_capsules (ms1 @ ms2) = collect_capsules ms1 @ collect_capsules ms2"
  by (simp add: collect_capsules_def)

lemma collect_capsules_Cons:
  "collect_capsules ((repo, path, cs) # ms) =
     map (\<lambda>capsule. (capsule, repo, path)) (filter validate_schema cs) @ collect_capsules ms"
  by (simp add: collect_capsules_def)

lemma missing_not_valid:
  "field \<in> set required \<Longrightarrow> map_of c field = None \<Longrightarrow> \<not> validate_schema c"
  by (auto simp: validate_schema_def list_all_iff)

lemma collected_valid: "(c, r, p) \<in> set (collect_capsules ms) \<Longrightarrow> validate_schema c"
  by (auto simp: collect_capsules_def)

lemma merge_step_keys:
  assumes "merge_step h idx (c, repo, path) = Inr idx'" and "map_of idx' k = Some e"
  shows "map_of idx k \<noteq> None \<or> map_of c ''capsule_id'' = Some (JStr k)"
proof -
  from assms(1) obtain cid where cid: "map_of c ''capsule_id'' = Some (JStr cid)"
    by (auto simp: getitem_def split: option.splits jval.splits)
  from assms(1) cid obtain v where "idx' = AList.update cid v idx"
    by (auto simp: getitem_def merge_existing_def split: option.splits sum.splits bool.splits)
  with assms(2) cid show ?thesis
    by (cases "k = cid") (simp_all add: update_conv')
qed

lemma merge_loop_keys:
  assumes "merge_loop h idx xs = Inr idx'" and "map_of idx' k = Some e"
  shows "map_of idx k \<noteq> None \<or> (\<exists>(c, repo, path) \<in> set xs. map_of c ''capsule_id'' = Some (JStr k))"
  using assms
proof (induction xs arbitrary: idx)
  case Nil
  then show ?case by simp
next
  case (Cons x xs)
  obtain c repo path where x: "x = (c, repo, path)" by (cases x)
  from Cons.prems(1) x obtain idx1 where
    s: "merge_step h idx (c, repo, path) = Inr idx1" and l: "merge_loop h idx1 xs = Inr idx'"
    by (auto split: sum.splits)
  from Cons.IH [OF l Cons.prems(2)]
  show ?case
  proof
    assume "map_of idx1 k \<noteq> None"
    then obtain e1 where "map_of idx1 k = Some e1" by auto
    from merge_step_keys [OF s this] show ?thesis using x by auto
  next
    assume "\<exists>(c, repo, path) \<in> set xs. map_of c ''capsule_id'' = Some (JStr k)"
    then show ?thesis by auto
  qed
qed

lemma index_keys_admitted:
  assumes "build_master_index h ms = Inr idx" and "map_of idx k = Some e"
  shows "\<exists>(repo, path, cs) \<in> set ms. \<exists>c \<in> set cs.
            validate_schema c \<and> map_of c ''capsule_id'' = Some (JStr k)"
proof -
  from assms have "merge_loop h [] (collect_capsules ms) = Inr idx"
    by (simp add: build_master_index_def merge_capsules_def)
  from merge_loop_keys [OF this assms(2)]
  obtain c repo path where "(c, repo, path) \<in> set (collect_capsules ms)"
    and "map_of c ''capsule_id'' = Some (JStr k)" by auto
  then show ?thesis
    by (auto simp: collect_capsules_def)
qed

text \<open>
  C8. A capsule record that lacks one of the four required fields never enters the merge
  input, whatever manifests are scanned; a scan with the record gives the same result as
  the scan without it (the same index, and no error that the scan without it does not
  raise); an identifier is in the Master Index only on account of another record, one that
  has the four fields; and when the record is the only one, the Master Index is empty and
  no error is raised.
\<close>

theorem missing_field_excluded:
  assumes "field \<in> set required" and "map_of c field = None"
  shows "(c, repo', path') \<notin> set (collect_capsules ms)
    \<and> build_master_index h (ms1 @ [(repo, path, cs1 @ [c] @ cs2)] @ ms2)
        = build_master_index h (ms1 @ [(repo, path, cs1 @ cs2)] @ ms2)
    \<and> (build_master_index h ms = Inr idx \<and> map_of idx k \<noteq> None \<longrightarrow>
         (\<exists>(repo, path, cs) \<in> set ms. \<exists>c' \<in> set cs.
             c' \<noteq> c \<and> validate_schema c' \<and> map_of c' ''capsule_id'' = Some (JStr k)))
    \<and> build_master_index h [(repo, path, [c])] = Inr []"
proof -
  have nv: "\<not> validate_schema c"
    using assms by (rule missing_not_valid)
  have absent: "(c, repo', path') \<notin> set (collect_capsules ms)"
    using nv collected_valid by blast
  have same: "collect_capsules (ms1 @ [(repo, path, cs1 @ [c] @ cs2)] @ ms2)
        = collect_capsules (ms1 @ [(repo, path, cs1 @ cs2)] @ ms2)"
    using nv by (simp add: collect_capsules_append collect_capsules_Cons)
  have other: "\<exists>(repo, path, cs) \<in> set ms. \<exists>c' \<in> set cs.
             c' \<noteq> c \<and> validate_schema c' \<and> map_of c' ''capsule_id'' = Some (JStr k)"
    if "build_master_index h ms = Inr idx" and "map_of idx k \<noteq> None"
  proof -
    from that(2) obtain e where "map_of idx k = Some e"
      by auto
    from index_keys_admitted [OF that(1) this] nv show ?thesis
      by fastforce
  qed
  have alone: "build_master_index h [(repo, path, [c])] = Inr []"
    using nv by (simp add: build_master_index_def collect_capsules_def merge_capsules_def)
  show ?thesis
    using absent same other alone by (simp add: build_master_index_def)
qed

theorem missing_field_excluded_witness:
  "''hash'' \<in> set required \<and> map_of cap_nohash ''hash'' = None
   \<and> (cap_nohash, ''r'', ''p'') \<notin> set (collect_capsules [(''r'', ''p'', [cap_green, cap_nohash])])
   \<and> build_master_index remdups ([] @ [(''r'', ''p'', [cap_green] @ [cap_nohash] @ [])] @ [])
        = Inr [(''c1'', annotate cap_green ''r'' ''p'')]
   \<and> build_master_index remdups [(''r'', ''p'', [cap_nohash])] = Inr []"
proof -
  have h1: "''hash'' \<in> set required"
    by (simp add: required_def)
  have h2: "map_of cap_nohash ''hash'' = None"
    by (simp add: cap_nohash_def)
  have v: "validate_schema cap_green"
    by (simp add: validate_schema_def required_def cap_green_def)
  have r: "build_master_index remdups ([] @ [(''r'', ''p'', [cap_green] @ [])] @ [])
        = Inr [(''c1'', annotate cap_green ''r'' ''p'')]"
    using v by (simp add: build_master_index_def collect_capsules_def merge_capsules_def
        getitem_def cap_green_def)
  from missing_field_excluded [OF h1 h2, where repo' = "''r''" and path' = "''p''"
      and ms = "[(''r'', ''p'', [cap_green, cap_nohash])]" and h = remdups and ?ms1.0 = "[]"
      and repo = "''r''" and path = "''p''" and ?cs1.0 = "[cap_green]" and ?cs2.0 = "[]"
      and ?ms2.0 = "[]"]
  show ?thesis
    using h1 h2 r by simp
qed





















text \<open>
  C1. The two records of the third scenario, one identifier, exactly one of them green
  and the other with the earlier timestamp. Folded green first, the pending record
  replaces the green one (its timestamp precedes); folded pending first, the green record
  replaces the pending one. The surviving record depends on the order.
\<close>

theorem green_record_lost_when_first:
  "merge_capsules h [(cap_green, ''r'', ''p''), (cap_pending, ''r'', ''q'')]
     = Inr [(''c1'', annotate cap_pending ''r'' ''q'')]
   \<and> merge_capsules h [(cap_pending, ''r'', ''q''), (cap_green, ''r'', ''p'')]
     = Inr [(''c1'', annotate cap_green ''r'' ''p'')]"
  by (simp add: merge_capsules_def merge_existing_def green_over_def older_than_def
      getitem_def cap_green_def cap_pending_def annotate_def)

section \<open>Properties of the data intake\<close>

subsection \<open>Type inference\<close>

lemmas text_defs = get_field_def is_boolean_def lower_def strip_def is_space_def lower_char_def
  boolean_tokens_def is_numeric_def is_integer_def overflows_def is_date_def ratio_def
  py_int_def

text \<open>
  C7. For the table with the rows \<open>{a: 1}\<close>, \<open>{a: 2}\<close>, \<open>{a: x}\<close>, where \<open>float\<close> parses
  \<open>1\<close> and \<open>2\<close> and rejects \<open>x\<close>: type inference returns, the numeric ratio of the
  sample is 2/3, the column \<open>a\<close> is classified mixed with confidence exactly 0.5 over a
  sample of 3, and the warnings are exactly the one warning of the mixed column.
\<close>

theorem scenario_mixed:
  assumes "pf ''1'' = Some (Fin 1)" and "pf ''2'' = Some (Fin 2)" and "pf ''x'' = None"
  shows "detect_column_types h pf rows_mixed [''a''] =
           Inr ([(''a'', \<lparr>ctype = TMixed, confidence = 1 / 2, sample_count = 3\<rparr>)],
                [''Column '' @ quote @ ''a'' @ quote @ '' has mixed types''])
       \<and> ratio (length (filter (is_numeric pf) (sample_values rows_mixed ''a'')))
                (length (sample_values rows_mixed ''a'')) = 2 / 3"
  using assms
  by (simp add: detect_column_types_def detect_field_def sample_values_def rows_mixed_def
      text_defs Let_def)

theorem scenario_mixed_witness:
  "scenario_float ''1'' = Some (Fin 1) \<and> scenario_float ''2'' = Some (Fin 2)
   \<and> scenario_float ''x'' = None
   \<and> (\<exists>types warnings.
         detect_column_types remdups scenario_float rows_mixed [''a''] = Inr (types, warnings)
       \<and> map (\<lambda>(f, d). (f, ctype d, confidence d)) types = [(''a'', TMixed, 1 / 2)]
       \<and> length warnings = 1)"
proof -
  have h: "scenario_float ''1'' = Some (Fin 1)" "scenario_float ''2'' = Some (Fin 2)"
    "scenario_float ''x'' = None"
    by (simp_all add: scenario_float_def)
  from scenario_mixed [OF h, of remdups] show ?thesis
    using h by simp
qed

text \<open>
  C5, as stated, fails. In a table of 101 rows whose first row has no value for the
  column and whose other 100 rows have one, the column has 100 non-empty values, yet the
  sample holds 99 of them: it is not the first 100 non-empty values.
\<close>

theorem sample_counterexample:
  "sample_values rows_101 ''a'' \<noteq> spec_sample_values rows_101 ''a''
   \<and> length (spec_sample_values rows_101 ''a'') = 100
   \<and> length (sample_values rows_101 ''a'') = 99
   \<and> length rows_101 = 101"
  by (simp add: rows_101_def sample_values_def spec_sample_values_def get_field_def)

text \<open>
  C5 (as the code has it). The sample of a column consists of the non-empty values of
  that column among the first 100 rows, in row order: it is unchanged when the table is
  cut after its 100th row, it has at most 100 values, and it is an initial part of the
  column's non-empty values.
\<close>

theorem sample_from_first_rows:
  "sample_values data field
     = filter (\<lambda>v. v \<noteq> []) (map (\<lambda>row. get_field row field) (take 100 data))
   \<and> sample_values data field = sample_values (take 100 data) field
   \<and> length (sample_values data field) \<le> 100
   \<and> (\<exists>rest. filter (\<lambda>v. v \<noteq> []) (map (\<lambda>row. get_field row field) data)
                = sample_values data field @ rest)"
proof -
  have t: "take (min 100 (length data)) data = take 100 data"
    by (simp add: min_def)
  have a: "sample_values data field
     = filter (\<lambda>v. v \<noteq> []) (map (\<lambda>row. get_field row field) (take 100 data))"
    by (simp add: sample_values_def t)
  have b: "sample_values data field = sample_values (take 100 data) field"
    by (simp add: sample_values_def t min_def)
  have "length (sample_values data field) \<le> length (take 100 data)"
    unfolding a by (rule order_trans [OF length_filter_le]) simp
  then have c: "length (sample_values data field) \<le> 100"
    by simp
  have "filter (\<lambda>v. v \<noteq> []) (map (\<lambda>row. get_field row field) (take 100 data @ drop 100 data))
          = sample_values data field
            @ filter (\<lambda>v. v \<noteq> []) (map (\<lambda>row. get_field row field) (drop 100 data))"
    unfolding a by (simp only: map_append filter_append)
  then have d: "\<exists>rest. filter (\<lambda>v. v \<noteq> []) (map (\<lambda>row. get_field row field) data)
                = sample_values data field @ rest"
    by auto
  show ?thesis using a b c d by blast
qed

lemma types_gap_detected:
  "detect_column_types remdups scenario_float rows_gap [''a'', ''b''] = Inr (types_gap, [])"
  by (simp add: detect_column_types_def detect_field_def sample_values_def rows_gap_def
      text_defs scenario_float_def types_gap_def Let_def)

lemma types_nan_detected:
  "detect_column_types remdups scenario_float rows_nan [''a'']
     = Inr ([(''a'', \<lparr>ctype = TNumeric, confidence = 1, sample_count = 1\<rparr>)], [])"
  by (simp add: detect_column_types_def detect_field_def sample_values_def rows_nan_def
      text_defs scenario_float_def Let_def)

subsection \<open>Independence of the enumeration order of sets\<close>

lemma set_order_length: "set_order h \<Longrightarrow> length (h xs) = card (set xs)"
  by (metis distinct_card set_order_def)

lemma detect_field_order:
  assumes "set_order h1" "set_order h2"
  shows "detect_field h1 pf data field st = detect_field h2 pf data field st"
  unfolding detect_field_def set_order_length [OF assms(1)] set_order_length [OF assms(2)] ..

lemma detect_loop_order:
  assumes "set_order h1" "set_order h2"
  shows "detect_loop h1 pf data fs st = detect_loop h2 pf data fs st"
  by (induction fs arbitrary: st) (simp_all add: detect_field_order [OF assms] split: sum.splits)

lemma detect_column_types_order:
  assumes "set_order h1" "set_order h2"
  shows "detect_column_types h1 pf data fieldnames = detect_column_types h2 pf data fieldnames"
  by (simp add: detect_column_types_def detect_loop_order [OF assms])

lemma categorical_stats_order:
  assumes "set_order h1" "set_order h2"
  shows "categorical_stats h1 rnd t c n vals = categorical_stats h2 rnd t c n vals"
  unfolding categorical_stats_def Let_def
    set_order_length [OF assms(1)] set_order_length [OF assms(2)] ..

lemma stats_field_order:
  assumes "set_order h1" "set_order h2"
  shows "stats_field h1 pf fp data cts f st = stats_field h2 pf fp data cts f st"
proof -
  have c: "categorical_stats h1 = categorical_stats h2"
    by (intro ext) (rule categorical_stats_order [OF assms])
  have "column_profile h1 pf fp data cts f = column_profile h2 pf fp data cts f"
    unfolding column_profile_def c ..
  then show ?thesis
    by (simp add: stats_field_def)
qed

lemma stats_loop_order:
  assumes "set_order h1" "set_order h2"
  shows "stats_loop h1 pf fp data cts fs st = stats_loop h2 pf fp data cts fs st"
  by (induction fs arbitrary: st) (simp_all add: stats_field_order [OF assms] split: sum.splits)

lemma calculate_statistics_order:
  assumes "set_order h1" "set_order h2"
  shows "calculate_statistics h1 pf fp data fieldnames cts
           = calculate_statistics h2 pf fp data fieldnames cts"
  unfolding calculate_statistics_def stats_loop_order [OF assms] ..

text \<open>
  C9. Two runs of type inference, then profiling, then the range checks and validation,
  on the same table, field names and configuration give the same outcome: the same
  descriptors, warnings, profiles, verdict and messages, or the same error, whatever
  order each of the two processes enumerates its sets in. Nothing else in these
  functions varies from run to run: they read no clock and no random source, and the
  float arithmetic, \<open>float\<close>, \<open>sorted\<close> and \<open>sum\<close> are functions of their arguments.
\<close>

theorem pipeline_deterministic:
  assumes "set_order h1" and "set_order h2"
  shows "run_pipeline h1 pf fp data fieldnames cfg = run_pipeline h2 pf fp data fieldnames cfg"
proof -
  have d: "detect_column_types h1 = detect_column_types h2"
    by (intro ext) (rule detect_column_types_order [OF assms])
  have c: "calculate_statistics h1 = calculate_statistics h2"
    by (intro ext) (rule calculate_statistics_order [OF assms])
  show ?thesis
    unfolding run_pipeline_def d c ..
qed

theorem pipeline_deterministic_witness:
  "set_order remdups \<and> set_order (\<lambda>xs. rev (remdups xs))
   \<and> run_pipeline remdups scenario_float exact_runtime rows_gap [''a'', ''b''] all_defaults
       = run_pipeline (\<lambda>xs. rev (remdups xs)) scenario_float exact_runtime rows_gap
           [''a'', ''b''] all_defaults"
proof -
  have h1: "set_order remdups"
    by (simp add: set_order_def)
  have h2: "set_order (\<lambda>xs. rev (remdups xs))"
    by (simp add: set_order_def)
  from pipeline_deterministic [OF h1 h2] h1 h2 show ?thesis
    by blast
qed

subsection \<open>Dictionaries built by the loop over the fields\<close>

lemma update_set_cases:
  "(k', v') \<in> set (AList.update k v al) \<Longrightarrow> (k' = k \<and> v' = v) \<or> (k', v') \<in> set al"
  by (induction al) (auto split: if_splits)

lemma fold_update_inv:
  assumes "distinct (map fst al)" and "\<forall>(k, v) \<in> set al. v = g k"
  shows "distinct (map fst (fold (\<lambda>f. AList.update f (g f)) fs al))
       \<and> (\<forall>(k, v) \<in> set (fold (\<lambda>f. AList.update f (g f)) fs al). v = g k)
       \<and> fst ` set (fold (\<lambda>f. AList.update f (g f)) fs al) = set fs \<union> fst ` set al"
  using assms
proof (induction fs arbitrary: al)
  case Nil
  then show ?case by simp
next
  case (Cons f fs)
  have d: "distinct (map fst (AList.update f (g f) al))"
    using Cons.prems(1) by (simp add: distinct_update)
  have v: "\<forall>(k, v) \<in> set (AList.update f (g f) al). v = g k"
    using Cons.prems(2) by (auto dest: update_set_cases)
  from Cons.IH [OF d v] show ?case
    by (auto simp: dom_update)
qed




text \<open>When the loop over the fields returns, every profile was computed, and the two
  dictionaries hold what was computed for each field.\<close>

lemma stats_loop_result:
  assumes "stats_loop h pf fp data cts fs st = Inr st'"
  shows "columns st'
           = fold (\<lambda>f. AList.update f (projr (column_profile h pf fp data cts f))) fs (columns st)
       \<and> missing_values st'
           = fold (\<lambda>f. AList.update f (missing_count data f)) fs (missing_values st)
       \<and> quality_score st' = quality_score st
       \<and> (\<forall>f \<in> set fs. \<exists>p. column_profile h pf fp data cts f = Inr p)"
  using assms
proof (induction fs arbitrary: st)
  case Nil
  then show ?case by simp
next
  case (Cons f fs)
  from Cons.prems obtain p where
    p: "column_profile h pf fp data cts f = Inr p"
    and l: "stats_loop h pf fp data cts fs
              (st\<lparr>missing_values := AList.update f (missing_count data f) (missing_values st),
                  columns := AList.update f p (columns st)\<rparr>) = Inr st'"
    by (auto simp: stats_field_def split: sum.splits)
  from Cons.IH [OF l] p show ?case
    by simp
qed

lemma calculate_statistics_result:
  assumes "calculate_statistics h pf fp data fieldnames cts = Inr st" and "data \<noteq> []"
  shows "\<exists>st0. stats_loop h pf fp data cts fieldnames
                  \<lparr>total_records = length data, columns = [], missing_values = [],
                   quality_score = Fin 0, validation_issues = [],
                   validation_messages = None\<rparr> = Inr st0
             \<and> columns st = columns st0 \<and> missing_values st = missing_values st0
             \<and> quality_score st
                 = (if length (columns st0) > 0
                    then (if length data * length (columns st0) > 0
                          then fsub (round_to_float fp) (Fin 1)
                                 (int_div (round_to_float fp)
                                    (sum_list (map snd (missing_values st0)))
                                    (length data * length (columns st0)))
                          else Fin 0)
                    else quality_score st0)"
  using assms
  by (auto simp: calculate_statistics_def Let_def split: sum.splits if_splits)

lemma column_lookup:
  assumes "calculate_statistics h pf fp data fieldnames cts = Inr st"
    and "map_of (columns st) field = Some pr"
  shows "column_profile h pf fp data cts field = Inr pr \<and> field \<in> set fieldnames \<and> data \<noteq> []"
proof -
  have ne: "data \<noteq> []"
    using assms by (auto simp: calculate_statistics_def)
  from calculate_statistics_result [OF assms(1) ne] obtain st0 where
    l: "stats_loop h pf fp data cts fieldnames
          \<lparr>total_records = length data, columns = [], missing_values = [],
           quality_score = Fin 0, validation_issues = [],
           validation_messages = None\<rparr> = Inr st0"
    and c: "columns st = columns st0" by blast
  let ?g = "\<lambda>f. projr (column_profile h pf fp data cts f)"
  let ?al = "fold (\<lambda>f. AList.update f (?g f)) fieldnames []"
  from stats_loop_result [OF l] have cols: "columns st0 = ?al"
    and ok: "\<forall>f \<in> set fieldnames. \<exists>p. column_profile h pf fp data cts f = Inr p"
    by simp_all
  have inv: "\<forall>(k, v) \<in> set ?al. v = ?g k" "fst ` set ?al = set fieldnames"
    using fold_update_inv [of "[]" ?g fieldnames] by simp_all
  from assms(2) c cols have "(field, pr) \<in> set ?al"
    by (auto dest: map_of_SomeD)
  then have "pr = ?g field" and "field \<in> fst ` set ?al"
    using inv(1) by (auto intro: rev_image_eqI)
  with inv(2) have f: "field \<in> set fieldnames" and "pr = ?g field"
    by simp_all
  with ok obtain p where "column_profile h pf fp data cts field = Inr p" "pr = p"
    by fastforce
  with f ne show ?thesis
    by simp
qed


lemma stats_gap_computed:
  "calculate_statistics remdups scenario_float exact_runtime rows_gap [''a'', ''b''] types_gap
     = Inr stats_gap"
  by (simp add: calculate_statistics_def stats_field_def column_profile_def info_type_def
      info_confidence_def categorical_stats_def bump_def rows_gap_def get_field_def
      missing_count_def types_gap_def profile_gap_def stats_gap_def exact_runtime_def
      int_div_def fsub_def Let_def)

lemma stats_nan_computed:
  "calculate_statistics remdups scenario_float exact_runtime rows_nan [''a'']
     [(''a'', \<lparr>ctype = TNumeric, confidence = 1, sample_count = 1\<rparr>)] = Inr stats_nan"
  by (simp add: calculate_statistics_def stats_field_def column_profile_def info_type_def
      info_confidence_def numeric_values_def List.map_filter_def numeric_stats_def
      skewness_of_def scenario_float_def scenario_sorted_def is_fin_def
      rows_nan_def get_field_def missing_count_def profile_nan_def stats_nan_def
      exact_runtime_def int_div_def fsub_def Let_def)

lemma num_exists:
  "\<exists>p. numeric_stats exact_runtime TInteger 1 [Fin 1, Fin 2, Fin 2] = Inr p"
  by (simp add: numeric_stats_def skewness_of_def exact_runtime_def fsub_def Let_def
      power2_eq_square power3_eq_cube)

subsection \<open>The verdict\<close>


text \<open>
  C10. On an empty row sequence the validator returns the verdict fail with an empty
  message list and leaves \<open>stats\<close> as it was: no check runs, nothing is raised.
\<close>

theorem empty_table_fails_silently:
  "validate_data rnd [] st cfg issues = (False, [], st)"
  by (simp add: validate_data_def)



subsection \<open>Order of floats\<close>

lemma flt_fle_trans: "flt a b \<Longrightarrow> fle b c \<Longrightarrow> flt a c"
  by (cases a; cases b; cases c) auto

lemma fle_flt_trans: "fle a b \<Longrightarrow> flt b c \<Longrightarrow> flt a c"
  by (cases a; cases b; cases c) auto

lemma fle_NInf: "x \<noteq> NaN \<Longrightarrow> fle NInf x"
  by (cases x) auto

lemma fle_PInf: "x \<noteq> NaN \<Longrightarrow> fle x PInf"
  by (cases x) auto

lemma rounding_mono: "rounding rnd \<Longrightarrow> x \<le> y \<Longrightarrow> fle (rnd x) (rnd y)"
  by (simp add: rounding_def)

lemma rounding_not_nan: "rounding rnd \<Longrightarrow> rnd x \<noteq> NaN"
  by (simp add: rounding_def)

lemma rounding_nonneg: "rounding rnd \<Longrightarrow> 0 \<le> x \<Longrightarrow> fle (Fin 0) (rnd x)"
  using rounding_mono [of rnd 0 x] by (simp add: rounding_def)

lemma scale_mono:
  assumes "rounding rnd" and "fle (Fin 0) i"
  shows "fle (fmul rnd (Fin (15 / 10)) i) (fmul rnd (Fin 3) i)"
proof (cases i)
  case (Fin r)
  with assms(2) have "15 / 10 * r \<le> 3 * r" by simp
  from rounding_mono [OF assms(1) this] Fin show ?thesis by simp
qed (use assms(2) in \<open>simp_all add: signed_inf_def\<close>)

lemma fsub_antimono:
  assumes "rounding rnd" and "fle a b"
  shows "fle (fsub rnd (Fin q) b) (fsub rnd (Fin q) a)"
proof (cases a; cases b)
  fix x y
  assume "a = Fin x" "b = Fin y"
  with assms(2) have "q - y \<le> q - x" by simp
  from rounding_mono [OF assms(1) this] \<open>a = Fin x\<close> \<open>b = Fin y\<close> show ?thesis
    by (simp add: fsub_def)
qed (use assms in \<open>auto simp: fsub_def fle_NInf fle_PInf rounding_not_nan\<close>)

lemma fadd_mono:
  assumes "rounding rnd" and "fle a b"
  shows "fle (fadd rnd (Fin q) a) (fadd rnd (Fin q) b)"
proof (cases a; cases b)
  fix x y
  assume "a = Fin x" "b = Fin y"
  with assms(2) have "q + x \<le> q + y" by simp
  from rounding_mono [OF assms(1) this] \<open>a = Fin x\<close> \<open>b = Fin y\<close> show ?thesis
    by simp
qed (use assms in \<open>auto simp: fle_NInf fle_PInf rounding_not_nan\<close>)

subsection \<open>Order statistics\<close>

lemma fold_min_le:
  "fold (\<lambda>v m. if v < m then v else m) xs (x::real) \<le> x
   \<and> (\<forall>v \<in> set xs. fold (\<lambda>v m. if v < m then v else m) xs x \<le> v)"
proof (induction xs arbitrary: x)
  case Nil
  then show ?case by simp
next
  case (Cons a xs)
  from Cons.IH [of "if a < x then a else x"] show ?case
    by (auto split: if_splits)
qed

lemma fold_max_ge:
  "x \<le> fold (\<lambda>v m. if m < v then v else m) xs (x::real)
   \<and> (\<forall>v \<in> set xs. v \<le> fold (\<lambda>v m. if m < v then v else m) xs x)"
proof (induction xs arbitrary: x)
  case Nil
  then show ?case by simp
next
  case (Cons a xs)
  from Cons.IH [of "if x < a then a else x"] show ?case
    by (auto split: if_splits)
qed

lemma fold_min_Fin:
  "fold (\<lambda>v m. if flt v m then v else m) (map Fin xs) (Fin x)
     = Fin (fold (\<lambda>v m. if v < m then v else m) xs x)"
  by (induction xs arbitrary: x) simp_all

lemma fold_max_Fin:
  "fold (\<lambda>v m. if flt m v then v else m) (map Fin xs) (Fin x)
     = Fin (fold (\<lambda>v m. if m < v then v else m) xs x)"
  by (induction xs arbitrary: x) simp_all

lemma py_min_le: "v \<in> set rs \<Longrightarrow> fle (py_min (map Fin rs)) (Fin v)"
proof (cases rs)
  case Nil
  then show "v \<in> set rs \<Longrightarrow> fle (py_min (map Fin rs)) (Fin v)" by simp
next
  case (Cons x rest)
  assume "v \<in> set rs"
  with Cons fold_min_le [of rest x] show "fle (py_min (map Fin rs)) (Fin v)"
    by (auto simp: fold_min_Fin)
qed

lemma py_max_ge: "v \<in> set rs \<Longrightarrow> fle (Fin v) (py_max (map Fin rs))"
proof (cases rs)
  case Nil
  then show "v \<in> set rs \<Longrightarrow> fle (Fin v) (py_max (map Fin rs))" by simp
next
  case (Cons x rest)
  assume "v \<in> set rs"
  with Cons fold_max_ge [of x rest] show "fle (Fin v) (py_max (map Fin rs))"
    by (auto simp: fold_max_Fin)
qed

lemma p5_index: "nat \<lfloor>5 / 100 * real n\<rfloor> = n div 20"
proof -
  have "5 / 100 * real n = real n / real 20" by simp
  then show ?thesis by (simp only: floor_divide_of_nat_eq nat_int)
qed

lemma p95_index: "nat \<lfloor>95 / 100 * real n\<rfloor> = (19 * n) div 20"
proof -
  have "95 / 100 * real n = real (19 * n) / real 20" by simp
  then show ?thesis by (simp only: floor_divide_of_nat_eq nat_int)
qed

lemma sorted_pick:
  assumes "i \<le> j" and "j < length xs"
  shows "sort xs ! i \<le> sort (xs::real list) ! j"
  using assms by (simp add: sorted_nth_mono)

lemma sort_nth_mem: "i < length xs \<Longrightarrow> sort xs ! i \<in> set (xs::real list)"
  by (metis length_sort nth_mem set_sort)

lemma length_filter_mono:
  "(\<And>x. P x \<Longrightarrow> Q x) \<Longrightarrow> length (filter P xs) \<le> length (filter Q xs)"
  by (induction xs) auto

text \<open>What a returned numeric profile holds.\<close>

lemma numeric_stats_fields:
  assumes "numeric_stats fp t c nv = Inr p"
  shows "count p = length nv"
    and "num_type p = t"
    and "min_val p = py_min nv"
    and "max_val p = py_max nv"
    and "p5 p = (if 0 < length nv then py_sorted fp nv ! nat \<lfloor>5 / 100 * real (length nv)\<rfloor>
                 else Fin 0)"
    and "q1 p = (if 0 < length nv then py_sorted fp nv ! (length nv div 4) else Fin 0)"
    and "median p = (if 0 < length nv then py_sorted fp nv ! (length nv div 2) else Fin 0)"
    and "q3 p = (if 0 < length nv then py_sorted fp nv ! (3 * length nv div 4) else Fin 0)"
    and "p95 p = (if 0 < length nv then py_sorted fp nv ! nat \<lfloor>95 / 100 * real (length nv)\<rfloor>
                  else Fin 0)"
    and "iqr p = fsub (round_to_float fp) (q3 p) (q1 p)"
    and "outliers p
           = length (filter
               (\<lambda>v. flt v (fsub (round_to_float fp) (q1 p)
                              (fmul (round_to_float fp) (Fin (15 / 10)) (iqr p)))
                   \<or> flt (fadd (round_to_float fp) (q3 p)
                              (fmul (round_to_float fp) (Fin (15 / 10)) (iqr p))) v) nv)"
    and "extreme_outliers p
           = length (filter
               (\<lambda>v. flt v (fsub (round_to_float fp) (q1 p)
                              (fmul (round_to_float fp) (Fin 3) (iqr p)))
                   \<or> flt (fadd (round_to_float fp) (q3 p)
                              (fmul (round_to_float fp) (Fin 3) (iqr p))) v) nv)"
  using assms unfolding numeric_stats_def Let_def
  by (auto split: sum.splits)

lemma numeric_stats_order:
  assumes ok: "numeric_stats fp t c (map Fin rs) = Inr p"
    and ne: "rs \<noteq> []"
    and rnd: "rounding (round_to_float fp)"
    and srt: "sorts_finite (py_sorted fp)"
  shows "0 < count p \<and> fle (min_val p) (p5 p) \<and> fle (p5 p) (q1 p) \<and> fle (q1 p) (median p)
       \<and> fle (median p) (q3 p) \<and> fle (q3 p) (p95 p) \<and> fle (p95 p) (max_val p)
       \<and> iqr p = fsub (round_to_float fp) (q3 p) (q1 p) \<and> fle (Fin 0) (iqr p)
       \<and> extreme_outliers p \<le> outliers p"
proof -
  let ?n = "length rs"
  let ?s = "sort rs"
  let ?r = "round_to_float fp"
  note f = numeric_stats_fields [OF ok]
  have n: "0 < ?n" using ne by simp
  have sorted: "py_sorted fp (map Fin rs) = map Fin ?s"
    using srt by (simp add: sorts_finite_def)
  have i1: "?n div 20 \<le> ?n div 4" by (rule div_le_mono2) simp_all
  have i2: "?n div 4 \<le> ?n div 2" by (rule div_le_mono2) simp_all
  have i3: "?n div 2 \<le> 3 * ?n div 4" by linarith
  have i4: "3 * ?n div 4 \<le> 19 * ?n div 20" by linarith
  have i5: "19 * ?n div 20 < ?n" using n by linarith
  have b1: "?n div 20 < ?n" using i1 i2 i3 i4 i5 by linarith
  have b2: "?n div 4 < ?n" using i2 i3 i4 i5 by linarith
  have b3: "?n div 2 < ?n" using i3 i4 i5 by linarith
  have b4: "3 * ?n div 4 < ?n" using i4 i5 by linarith
  have cnt: "count p = ?n" using f(1) by simp
  have mn: "min_val p = py_min (map Fin rs)" and mx: "max_val p = py_max (map Fin rs)"
    using f(3,4) by simp_all
  have p5: "p5 p = Fin (?s ! (?n div 20))"
    using f(5) n b1 by (simp only: length_map if_True p5_index sorted nth_map length_sort)
  have q1: "q1 p = Fin (?s ! (?n div 4))"
    using f(6) n b2 by (simp only: length_map if_True sorted nth_map length_sort)
  have med: "median p = Fin (?s ! (?n div 2))"
    using f(7) n b3 by (simp only: length_map if_True sorted nth_map length_sort)
  have q3: "q3 p = Fin (?s ! (3 * ?n div 4))"
    using f(8) n b4 by (simp only: length_map if_True sorted nth_map length_sort)
  have p95: "p95 p = Fin (?s ! (19 * ?n div 20))"
    using f(9) n i5 by (simp only: length_map if_True p95_index sorted nth_map length_sort)
  have a: "fle (min_val p) (p5 p)"
    unfolding mn p5 using b1 by (intro py_min_le sort_nth_mem)
  have b: "fle (p5 p) (q1 p)"
    unfolding p5 q1 using sorted_pick [OF i1 b2] by simp
  have c: "fle (q1 p) (median p)"
    unfolding q1 med using sorted_pick [OF i2 b3] by simp
  have d: "fle (median p) (q3 p)"
    unfolding med q3 using sorted_pick [OF i3 b4] by simp
  have e: "fle (q3 p) (p95 p)"
    unfolding q3 p95 using sorted_pick [OF i4 i5] by simp
  have g: "fle (p95 p) (max_val p)"
    unfolding mx p95 using i5 by (intro py_max_ge sort_nth_mem)
  have iq: "iqr p = fsub ?r (q3 p) (q1 p)"
    by (rule f(10))
  have "?s ! (?n div 4) \<le> ?s ! (3 * ?n div 4)"
    using c d unfolding q1 med q3 by simp
  then have pos: "fle (Fin 0) (iqr p)"
    unfolding iq q1 q3 using rounding_nonneg [OF rnd, of "?s ! (3 * ?n div 4) - ?s ! (?n div 4)"]
    by (simp add: fsub_def)
  have sc: "fle (fmul ?r (Fin (15 / 10)) (iqr p)) (fmul ?r (Fin 3) (iqr p))"
    using rnd pos by (rule scale_mono)
  have lo: "fle (fsub ?r (q1 p) (fmul ?r (Fin 3) (iqr p)))
                (fsub ?r (q1 p) (fmul ?r (Fin (15 / 10)) (iqr p)))"
    unfolding q1 using rnd sc by (rule fsub_antimono)
  have hi: "fle (fadd ?r (q3 p) (fmul ?r (Fin (15 / 10)) (iqr p)))
                (fadd ?r (q3 p) (fmul ?r (Fin 3) (iqr p)))"
    unfolding q3 using rnd sc by (rule fadd_mono)
  have "length (filter
               (\<lambda>v. flt v (fsub ?r (q1 p) (fmul ?r (Fin 3) (iqr p)))
                   \<or> flt (fadd ?r (q3 p) (fmul ?r (Fin 3) (iqr p))) v) (map Fin rs))
        \<le> length (filter
               (\<lambda>v. flt v (fsub ?r (q1 p) (fmul ?r (Fin (15 / 10)) (iqr p)))
                   \<or> flt (fadd ?r (q3 p) (fmul ?r (Fin (15 / 10)) (iqr p))) v) (map Fin rs))"
  proof (rule length_filter_mono)
    fix v
    assume "flt v (fsub ?r (q1 p) (fmul ?r (Fin 3) (iqr p)))
              \<or> flt (fadd ?r (q3 p) (fmul ?r (Fin 3) (iqr p))) v"
    then show "flt v (fsub ?r (q1 p) (fmul ?r (Fin (15 / 10)) (iqr p)))
              \<or> flt (fadd ?r (q3 p) (fmul ?r (Fin (15 / 10)) (iqr p))) v"
      using flt_fle_trans [OF _ lo] fle_flt_trans [OF hi] by blast
  qed
  then have ex: "extreme_outliers p \<le> outliers p"
    unfolding f(11) f(12) .
  show ?thesis
    unfolding cnt using n a b c d e g iq pos ex by (intro conjI)
qed

lemma finite_list: "list_all is_fin xs \<Longrightarrow> xs = map Fin (map the_fin xs)"
  by (induction xs) (auto simp: is_fin_def the_fin_def split: pyfloat.splits)

text \<open>
  C4 (as the code has it). Every numeric profile that the profiler stores for a column
  whose parsed values are all finite has a positive count, belongs to a numeric or
  integer column, and satisfies min \<le> p5 \<le> q1 \<le> median \<le> q3 \<le> p95 \<le> max,
  iqr = q3 - q1 \<ge> 0 and extreme_outliers \<le> outliers, in the comparisons and the
  subtraction of the floats.
\<close>

theorem order_statistics:
  assumes "calculate_statistics h pf fp data fieldnames column_types = Inr st"
    and "map_of (columns st) field = Some (NumericProfile p)"
    and "list_all is_fin (numeric_values pf (map (\<lambda>row. get_field row field) data))"
    and "rounding (round_to_float fp)" and "sorts_finite (py_sorted fp)"
  shows "0 < count p \<and> fle (min_val p) (p5 p) \<and> fle (p5 p) (q1 p) \<and> fle (q1 p) (median p)
       \<and> fle (median p) (q3 p) \<and> fle (q3 p) (p95 p) \<and> fle (p95 p) (max_val p)
       \<and> iqr p = fsub (round_to_float fp) (q3 p) (q1 p) \<and> fle (Fin 0) (iqr p)
       \<and> extreme_outliers p \<le> outliers p
       \<and> num_type p \<in> {TNumeric, TInteger}"
proof -
  let ?nv = "numeric_values pf (map (\<lambda>row. get_field row field) data)"
  from column_lookup [OF assms(1,2)]
  have "column_profile h pf fp data column_types field = Inr (NumericProfile p)"
    by simp
  then obtain t c where ne: "?nv \<noteq> []" and ns: "numeric_stats fp t c ?nv = Inr p"
    and t: "t \<in> {TNumeric, TInteger}"
    by (auto simp: column_profile_def Let_def split: if_splits sum.splits)
  from finite_list [OF assms(3)] obtain rs where rs: "?nv = map Fin rs"
    by blast
  with ne have "rs \<noteq> []" by auto
  note A = numeric_stats_order [OF ns [unfolded rs] this assms(4,5)]
  have B: "num_type p \<in> {TNumeric, TInteger}"
    using numeric_stats_fields(2) [OF ns] t by simp
  show ?thesis
    using A B by blast
qed

theorem order_statistics_witness:
  "\<exists>st p. calculate_statistics remdups scenario_float exact_runtime rows_num [''b'']
             [(''b'', \<lparr>ctype = TInteger, confidence = 1, sample_count = 3\<rparr>)] = Inr st
     \<and> map_of (columns st) ''b'' = Some (NumericProfile p)
     \<and> list_all is_fin (numeric_values scenario_float (map (\<lambda>row. get_field row ''b'') rows_num))
     \<and> rounding (round_to_float exact_runtime) \<and> sorts_finite (py_sorted exact_runtime)
     \<and> count p = 3 \<and> fle (q1 p) (median p) \<and> fle (median p) (q3 p)
     \<and> fle (Fin 0) (iqr p) \<and> extreme_outliers p \<le> outliers p"
proof -
  from num_exists obtain p where
    p: "numeric_stats exact_runtime TInteger 1 [Fin 1, Fin 2, Fin 2] = Inr p" by blast
  have nv: "numeric_values scenario_float (map (\<lambda>row. get_field row ''b'') rows_num)
              = [Fin 1, Fin 2, Fin 2]"
    by (simp add: numeric_values_def List.map_filter_def scenario_float_def rows_num_def
        get_field_def)
  have h3: "list_all is_fin
              (numeric_values scenario_float (map (\<lambda>row. get_field row ''b'') rows_num))"
    unfolding nv by (simp add: is_fin_def)
  have h4: "rounding (round_to_float exact_runtime)"
    by (simp add: rounding_def exact_runtime_def)
  have h5: "sorts_finite (py_sorted exact_runtime)"
    by (simp add: sorts_finite_def exact_runtime_def scenario_sorted_def is_fin_def the_fin_def
        list_all_iff comp_def)
  obtain st where
    h1: "calculate_statistics remdups scenario_float exact_runtime rows_num [''b'']
           [(''b'', \<lparr>ctype = TInteger, confidence = 1, sample_count = 3\<rparr>)] = Inr st"
    and h2: "map_of (columns st) ''b'' = Some (NumericProfile p)"
    using p nv
    by (simp add: calculate_statistics_def stats_field_def column_profile_def info_type_def
        info_confidence_def rows_num_def Let_def)
  from order_statistics [OF h1 h2 h3 h4 h5] numeric_stats_fields(1) [OF p] h1 h2 h3 h4 h5
  show ?thesis
    by auto
qed

text \<open>
  C4, as stated, fails. The table of one row with the text \<open>nan\<close> in its column: type
  inference classifies the column numeric, the profile has count 1, and its statistics are
  NaN, so that neither min \<le> p5 nor q1 \<le> median nor iqr \<ge> 0 holds.
\<close>

theorem nan_counterexample:
  "detect_column_types remdups scenario_float rows_nan [''a'']
     = Inr ([(''a'', \<lparr>ctype = TNumeric, confidence = 1, sample_count = 1\<rparr>)], [])
   \<and> calculate_statistics remdups scenario_float exact_runtime rows_nan [''a'']
       [(''a'', \<lparr>ctype = TNumeric, confidence = 1, sample_count = 1\<rparr>)] = Inr stats_nan
   \<and> map_of (columns stats_nan) ''a'' = Some (NumericProfile profile_nan)
   \<and> 0 < count profile_nan
   \<and> \<not> fle (min_val profile_nan) (p5 profile_nan)
   \<and> \<not> fle (q1 profile_nan) (median profile_nan)
   \<and> \<not> fle (Fin 0) (iqr profile_nan)"
proof -
  have c: "map_of (columns stats_nan) ''a'' = Some (NumericProfile profile_nan)"
    by (simp add: stats_nan_def)
  have d: "0 < count profile_nan" "\<not> fle (min_val profile_nan) (p5 profile_nan)"
    "\<not> fle (q1 profile_nan) (median profile_nan)" "\<not> fle (Fin 0) (iqr profile_nan)"
    by (simp_all add: profile_nan_def)
  show ?thesis
    using types_nan_detected stats_nan_computed c d by (intro conjI)
qed

subsection \<open>Cardinality of a categorical column\<close>

text \<open>
  C6. A table of two rows whose column \<open>a\<close> has the value \<open>x\<close> in the first row and no
  value in the second. Type inference, which divides the number of distinct values by the
  number of non-empty sampled values, finds the ratio above 0.9 and classifies the column
  as high-cardinality categorical. The profile of the same column has \<open>unique_count\<close> 1
  and one value that is not missing, and reports the cardinality 1/2: the unique count
  over the number of rows, not over the number of values that are not missing.
\<close>

theorem cardinality_over_all_rows:
  "detect_column_types remdups scenario_float rows_gap [''a'', ''b''] = Inr (types_gap, [])
   \<and> calculate_statistics remdups scenario_float exact_runtime rows_gap [''a'', ''b''] types_gap
       = Inr stats_gap
   \<and> map_of (columns stats_gap) ''a'' = Some (CategoricalProfile profile_gap)
   \<and> unique_count profile_gap = 1
   \<and> cardinality profile_gap = Fin (1 / 2)
   \<and> length rows_gap = 2
   \<and> length rows_gap - missing_count rows_gap ''a'' = 1"
proof -
  have c: "map_of (columns stats_gap) ''a'' = Some (CategoricalProfile profile_gap)"
    by (simp add: stats_gap_def)
  have d: "unique_count profile_gap = 1" "cardinality profile_gap = Fin (1 / 2)"
    by (simp_all add: profile_gap_def)
  have e: "length rows_gap = 2" "length rows_gap - missing_count rows_gap ''a'' = 1"
    by (simp_all add: rows_gap_def missing_count_def get_field_def)
  show ?thesis
    using types_gap_detected stats_gap_computed c d e by (intro conjI)
qed

end
